theory Spec2Isabelle
  imports Main "HOL-Library.AList"
begin

section \<open>The media cache hook of useCache.tsx\<close>

text \<open>
  The hook \<^verbatim>\<open>useCache\<close> offers \<^verbatim>\<open>cacheItem\<close>, \<^verbatim>\<open>getCache\<close> and
  \<^verbatim>\<open>clearCache\<close>. It keeps no state of its own: everything it knows is in the
  directory \<^verbatim>\<open>FileSystem.cacheDirectory + "cache"\<close>. The libraries it calls
  (expo-file-system, expo-crypto, expo's Linking, async-lock) are not part of the
  repository, so they are parameters of the model: a record of functions over an
  arbitrary type of file system states \<open>'fs\<close>.

  Every asynchronous function becomes a function from the state before the call to the
  state after it and the outcome of the promise: \<open>Inl e\<close> for a rejection with \<open>e\<close>,
  \<open>Inr v\<close> for a promise fulfilled with \<open>v\<close>. \<^verbatim>\<open>undefined\<close> is \<open>None\<close>.
  Calls to \<^verbatim>\<open>console.log\<close> are left out.
\<close>

subsection \<open>Data\<close>

datatype FileType = image | video

record CacheOptions =
  customName :: "string option"
  fileType :: "FileType option"
  authToken :: "string option"

text \<open>A thrown JavaScript value.\<close>

datatype error = Error string

text \<open>
  The objects that carry a \<^verbatim>\<open>uri\<close>: the entry \<^verbatim>\<open>getCache\<close> returns has the
  fields \<^verbatim>\<open>uri\<close>, \<^verbatim>\<open>modificationTime\<close> and \<^verbatim>\<open>size\<close>; expo's \<^verbatim>\<open>FileInfo\<close>
  has these and \<^verbatim>\<open>exists\<close> and \<^verbatim>\<open>isDirectory\<close>; the result of a download has
  \<^verbatim>\<open>uri\<close> and \<^verbatim>\<open>status\<close>. Record extension lets the three share the field
  \<open>uri\<close>. The field \<^verbatim>\<open>size\<close> is \<open>size_bytes\<close> here, since \<open>size\<close> is a
  constant of HOL.
\<close>

record Located =
  uri :: string

record CacheEntry = Located +
  modificationTime :: nat
  size_bytes :: nat

record FileInfo = CacheEntry +
  exists :: bool
  isDirectory :: bool

record FileSystemDownloadResult = Located +
  status :: nat

record ParsedURL =
  scheme :: "string option"

datatype CryptoDigestAlgorithm = SHA1 | SHA256 | SHA384 | SHA512 | MD5

type_synonym headers = "(string \<times> string) list"

subsection \<open>The libraries\<close>

text \<open>
  \<open>getInfoAsync\<close> only reads the file system. The other operations of
  expo-file-system return the file system they leave behind, also when they fail.
  \<open>deleteAsync\<close> takes expo's option \<^verbatim>\<open>idempotent\<close>, which is false when the caller
  passes no options. \<open>digestStringAsync\<close> and \<open>parse\<close> do not touch the file
  system.
\<close>

record 'fs expo =
  cacheDirectory :: string
  getInfoAsync :: "'fs \<Rightarrow> string \<Rightarrow> error + FileInfo"
  makeDirectoryAsync :: "'fs \<Rightarrow> string \<Rightarrow> 'fs \<times> (error + unit)"
  copyAsync :: "'fs \<Rightarrow> string \<Rightarrow> string \<Rightarrow> 'fs \<times> (error + unit)"
  downloadAsync ::
    "'fs \<Rightarrow> string \<Rightarrow> string \<Rightarrow> headers \<Rightarrow> 'fs \<times> (error + FileSystemDownloadResult option)"
  deleteAsync :: "'fs \<Rightarrow> string \<Rightarrow> bool \<Rightarrow> 'fs \<times> (error + unit)"
  digestStringAsync :: "CryptoDigestAlgorithm \<Rightarrow> string \<Rightarrow> error + string"
  parse :: "string \<Rightarrow> error + ParsedURL"

text \<open>
  The state of the model is the file system together with the list of the calls made to
  expo-file-system so far, oldest first. The list is what makes "performs no download"
  and "queries this path" statements about the code.
\<close>

datatype fs_call =
    GetInfo string
  | MakeDirectory string
  | Copy string string
  | Download string string headers
  | Delete string bool

record 'fs world =
  files :: 'fs
  calls :: "fs_call list"

definition FileSystem_getInfoAsync ::
  "'fs expo \<Rightarrow> string \<Rightarrow> 'fs world \<Rightarrow> 'fs world \<times> (error + FileInfo)" where
  "FileSystem_getInfoAsync env path s =
     (s\<lparr>calls := calls s @ [GetInfo path]\<rparr>, getInfoAsync env (files s) path)"

definition FileSystem_makeDirectoryAsync ::
  "'fs expo \<Rightarrow> string \<Rightarrow> 'fs world \<Rightarrow> 'fs world \<times> (error + unit)" where
  "FileSystem_makeDirectoryAsync env path s =
     (case makeDirectoryAsync env (files s) path of
        (fs', r) \<Rightarrow> (\<lparr>files = fs', calls = calls s @ [MakeDirectory path]\<rparr>, r))"

definition FileSystem_copyAsync ::
  "'fs expo \<Rightarrow> string \<Rightarrow> string \<Rightarrow> 'fs world \<Rightarrow> 'fs world \<times> (error + unit)" where
  "FileSystem_copyAsync env from to s =
     (case copyAsync env (files s) from to of
        (fs', r) \<Rightarrow> (\<lparr>files = fs', calls = calls s @ [Copy from to]\<rparr>, r))"

definition FileSystem_downloadAsync ::
  "'fs expo \<Rightarrow> string \<Rightarrow> string \<Rightarrow> headers \<Rightarrow> 'fs world
     \<Rightarrow> 'fs world \<times> (error + FileSystemDownloadResult option)" where
  "FileSystem_downloadAsync env url fileUri hdrs s =
     (case downloadAsync env (files s) url fileUri hdrs of
        (fs', r) \<Rightarrow> (\<lparr>files = fs', calls = calls s @ [Download url fileUri hdrs]\<rparr>, r))"

definition FileSystem_deleteAsync ::
  "'fs expo \<Rightarrow> string \<Rightarrow> bool \<Rightarrow> 'fs world \<Rightarrow> 'fs world \<times> (error + unit)" where
  "FileSystem_deleteAsync env path idempotent s =
     (case deleteAsync env (files s) path idempotent of
        (fs', r) \<Rightarrow> (\<lparr>files = fs', calls = calls s @ [Delete path idempotent]\<rparr>, r))"

subsection \<open>The hook\<close>

definition APIHeader :: "string option \<Rightarrow> headers" where
  "APIHeader token =
     [(''Accept'', ''application/json''), (''Content-Type'', ''application/json'')] @
     (case token of
        None \<Rightarrow> []
      | Some t \<Rightarrow> if t = [] then [] else [(''Authorization'', ''Bearer '' @ t)])"

definition cacheDirName :: string where
  "cacheDirName = ''cache''"

definition isCacheDirectoryExists :: "'fs expo \<Rightarrow> 'fs world \<Rightarrow> 'fs world \<times> (error + bool)" where
  "isCacheDirectoryExists env s =
     (case FileSystem_getInfoAsync env (cacheDirectory env @ cacheDirName) s of
        (s', Inl e) \<Rightarrow> (s', Inl e)
      | (s', Inr cacheDir) \<Rightarrow> (s', Inr (isDirectory cacheDir \<and> exists cacheDir)))"

definition createCacheDirectory :: "'fs expo \<Rightarrow> 'fs world \<Rightarrow> 'fs world \<times> (error + unit)" where
  "createCacheDirectory env s =
     FileSystem_makeDirectoryAsync env (cacheDirectory env @ cacheDirName) s"

text \<open>The effect that runs once when the hook is mounted; its try block swallows every error.\<close>

definition init :: "'fs expo \<Rightarrow> 'fs world \<Rightarrow> 'fs world" where
  "init env s =
     (case isCacheDirectoryExists env s of
        (s', Inl e) \<Rightarrow> s'
      | (s', Inr True) \<Rightarrow> s'
      | (s', Inr False) \<Rightarrow> fst (createCacheDirectory env s'))"

definition getFilename :: "'fs expo \<Rightarrow> string \<Rightarrow> FileType option \<Rightarrow> error + string" where
  "getFilename env url ft =
     (case digestStringAsync env SHA256 url of
        Inl e \<Rightarrow> Inl e
      | Inr digestUrl \<Rightarrow>
          (case ft of
             Some t \<Rightarrow>
               (let fileExt = (if t = image then ''jpg'' else ''mp4'')
                in Inr (digestUrl @ ''.'' @ fileExt))
           | None \<Rightarrow> Inr digestUrl))"

definition isRemoteUrl :: "'fs expo \<Rightarrow> string \<Rightarrow> error + bool" where
  "isRemoteUrl env url =
     (case parse env url of
        Inl e \<Rightarrow> Inl e
      | Inr parsedUrl \<Rightarrow>
          Inr (scheme parsedUrl = Some ''http'' \<or> scheme parsedUrl = Some ''https''))"

definition getCache ::
  "'fs expo \<Rightarrow> string \<Rightarrow> FileType option \<Rightarrow> 'fs world \<Rightarrow> 'fs world \<times> (error + CacheEntry option)" where
  "getCache env name ft s =
     (case getFilename env name ft of
        Inl e \<Rightarrow> (s, Inl e)
      | Inr filename \<Rightarrow>
          (case FileSystem_getInfoAsync env
                  (cacheDirectory env @ cacheDirName @ ''/'' @ filename) s of
             (s', Inl e) \<Rightarrow> (s', Inl e)
           | (s', Inr fileInfo) \<Rightarrow>
               if exists fileInfo
               then (s', Inr (Some \<lparr>uri = uri fileInfo,
                                    modificationTime = modificationTime fileInfo,
                                    size_bytes = size_bytes fileInfo\<rparr>))
               else (s', Inr None)))"

text \<open>
  \<^verbatim>\<open>lock.acquire(key, fn)\<close> of async-lock runs \<open>fn\<close> once the key is free and
  settles as \<open>fn\<close> does. The model is sequential: the key is free at every call.
  \<^verbatim>\<open>promise.catch(handler)\<close> with the handler of the source, which returns
  \<^verbatim>\<open>undefined\<close>, is \<open>catch_undefined\<close>.
\<close>

definition lock_acquire ::
  "string \<Rightarrow> ('s \<Rightarrow> 's \<times> (error + 'a)) \<Rightarrow> 's \<Rightarrow> 's \<times> (error + 'a)" where
  "lock_acquire key fn s = fn s"

definition catch_undefined :: "'s \<times> (error + 'a option) \<Rightarrow> 's \<times> (error + 'a option)" where
  "catch_undefined p = (case p of (s, Inl err) \<Rightarrow> (s, Inr None) | (s, Inr v) \<Rightarrow> (s, Inr v))"

definition cacheRemoteItem ::
  "'fs expo \<Rightarrow> string \<Rightarrow> CacheOptions \<Rightarrow> 'fs world \<Rightarrow> 'fs world \<times> (error + string option)" where
  "cacheRemoteItem env url options s =
     (case getFilename env (case customName options of None \<Rightarrow> url | Some c \<Rightarrow> c)
             (fileType options) of
        Inl e \<Rightarrow> (s, Inl e)
      | Inr filename \<Rightarrow>
          catch_undefined
            (lock_acquire url
               (\<lambda>s. case getCache env url (fileType options) s of
                       (s1, Inl e) \<Rightarrow> (s1, Inl e)
                     | (s1, Inr None) \<Rightarrow>
                         (case FileSystem_downloadAsync env url
                                 (cacheDirectory env @ cacheDirName @ ''/'' @ filename)
                                 (APIHeader (authToken options)) s1 of
                            (s2, Inl e) \<Rightarrow> (s2, Inl e)
                          | (s2, Inr (Some result)) \<Rightarrow> (s2, Inr (Some (uri result)))
                          | (s2, Inr None) \<Rightarrow> (s2, Inr None))
                     | (s1, Inr (Some existingCache)) \<Rightarrow> (s1, Inr None))
               s))"

definition cacheLocalItem ::
  "'fs expo \<Rightarrow> string \<Rightarrow> CacheOptions \<Rightarrow> 'fs world \<Rightarrow> 'fs world \<times> (error + string option)" where
  "cacheLocalItem env url options s =
     (case getFilename env (case customName options of None \<Rightarrow> url | Some c \<Rightarrow> c)
             (fileType options) of
        Inl e \<Rightarrow> (s, Inl e)
      | Inr filename \<Rightarrow>
          (case FileSystem_copyAsync env url
                  (cacheDirectory env @ cacheDirName @ ''/'' @ filename) s of
             (s1, Inl e) \<Rightarrow> (s1, Inl e)
           | (s1, Inr u) \<Rightarrow>
               (case getCache env (cacheDirectory env @ cacheDirName @ ''/'' @ filename)
                       (fileType options) s1 of
                  (s2, Inl e) \<Rightarrow> (s2, Inl e)
                | (s2, Inr (Some result)) \<Rightarrow> (s2, Inr (Some (uri result)))
                | (s2, Inr None) \<Rightarrow> (s2, Inr None))))"

text \<open>
  In \<^verbatim>\<open>cacheItem\<close> the try block awaits \<^verbatim>\<open>getCache\<close> and calls
  \<^verbatim>\<open>_isRemoteUrl\<close>, so what these throw reaches the catch clause and becomes
  \<^verbatim>\<open>undefined\<close>. The two delegations are \<^verbatim>\<open>return _cacheRemoteItem(url, options)\<close>
  and \<^verbatim>\<open>return _cacheLocalItem(url, options)\<close>, without \<^verbatim>\<open>await\<close>: the try
  block ends by handing the pending promise to the caller, and a later rejection of that
  promise is not seen by the catch clause. So the outcome of the delegate is the outcome
  of \<^verbatim>\<open>cacheItem\<close>, rejections included.
\<close>

definition cacheItem ::
  "'fs expo \<Rightarrow> string \<Rightarrow> CacheOptions \<Rightarrow> 'fs world \<Rightarrow> 'fs world \<times> (error + string option)" where
  "cacheItem env url options s =
     (case getCache env url (fileType options) s of
        (s1, Inl e) \<Rightarrow> (s1, Inr None)
      | (s1, Inr (Some existingCache)) \<Rightarrow> (s1, Inr (Some (uri existingCache)))
      | (s1, Inr None) \<Rightarrow>
          (case isRemoteUrl env url of
             Inl e \<Rightarrow> (s1, Inr None)
           | Inr True \<Rightarrow> cacheRemoteItem env url options s1
           | Inr False \<Rightarrow> cacheLocalItem env url options s1))"

definition clearCache :: "'fs expo \<Rightarrow> 'fs world \<Rightarrow> 'fs world \<times> (error + unit)" where
  "clearCache env s =
     FileSystem_deleteAsync env (cacheDirectory env @ cacheDirName) False s"

subsection \<open>What the statements below speak about\<close>

text \<open>The suffix \<open>getFilename\<close> appends to the digest, as a function of the type tag.\<close>

definition extension_of :: "FileType option \<Rightarrow> string" where
  "extension_of ft = (case ft of None \<Rightarrow> [] | Some image \<Rightarrow> ''.jpg'' | Some video \<Rightarrow> ''.mp4'')"

text \<open>The name whose digest names the file written: \<^verbatim>\<open>customName ?? url\<close>.\<close>

definition storageName :: "string \<Rightarrow> CacheOptions \<Rightarrow> string" where
  "storageName url options = (case customName options of None \<Rightarrow> url | Some c \<Rightarrow> c)"

text \<open>
  Two contracts of expo-file-system that some statements assume. A download that reports
  a result has left a file at its destination, and reports the uri \<open>getInfoAsync\<close>
  gives for it. A download changes what \<open>getInfoAsync\<close> reports at its destination
  only.
\<close>

definition download_materializes :: "'fs expo \<Rightarrow> bool" where
  "download_materializes env \<longleftrightarrow>
     (\<forall>fs url dest hdrs fs' r.
        downloadAsync env fs url dest hdrs = (fs', Inr (Some r)) \<longrightarrow>
        (\<exists>info. getInfoAsync env fs' dest = Inr info \<and> exists info \<and> uri info = uri r))"


subsection \<open>A small file system to run the hook on\<close>

text \<open>
  The closed statements below run the hook on a file system that is a list of paths with
  what is there. It follows the documentation of expo-file-system: \<open>getInfoAsync\<close>
  reports the uri it was asked about; \<open>copyAsync\<close> rejects when the source is
  missing and leaves the source where it is; \<open>downloadAsync\<close> writes the body the
  server has for the url and resolves to the uri of the file, and rejects when the server
  has nothing; \<open>deleteAsync\<close> removes a path and what lies under it, and rejects when
  nothing is there unless \<^verbatim>\<open>idempotent\<close> is set; \<open>makeDirectoryAsync\<close> rejects
  when the path is taken. The digest is a stand-in for SHA-256 that is injective, so that
  it shows no collision SHA-256 would not show; \<open>parse\<close> reads the scheme off the
  front of the url.
\<close>

datatype node = File string | Directory

type_synonym disk = "(string \<times> node) list"

definition disk_getInfoAsync :: "disk \<Rightarrow> string \<Rightarrow> error + FileInfo" where
  "disk_getInfoAsync fs path =
     Inr (case map_of fs path of
            None \<Rightarrow> \<lparr>uri = path, modificationTime = 0, size_bytes = 0,
                      exists = False, isDirectory = False\<rparr>
          | Some (File body) \<Rightarrow> \<lparr>uri = path, modificationTime = 0, size_bytes = length body,
                      exists = True, isDirectory = False\<rparr>
          | Some Directory \<Rightarrow> \<lparr>uri = path, modificationTime = 0, size_bytes = 0,
                      exists = True, isDirectory = True\<rparr>)"

definition disk_makeDirectoryAsync :: "disk \<Rightarrow> string \<Rightarrow> disk \<times> (error + unit)" where
  "disk_makeDirectoryAsync fs path =
     (case map_of fs path of
        None \<Rightarrow> (AList.update path Directory fs, Inr ())
      | Some n \<Rightarrow> (fs, Inl (Error ''directory could not be created'')))"

definition disk_copyAsync :: "disk \<Rightarrow> string \<Rightarrow> string \<Rightarrow> disk \<times> (error + unit)" where
  "disk_copyAsync fs from to =
     (case map_of fs from of
        None \<Rightarrow> (fs, Inl (Error ''source is not readable''))
      | Some n \<Rightarrow> (AList.update to n fs, Inr ()))"

definition server :: "(string \<times> string) list" where
  "server = [(''https://example.com/a.jpg'', ''JPEG'')]"

definition disk_downloadAsync ::
  "disk \<Rightarrow> string \<Rightarrow> string \<Rightarrow> headers \<Rightarrow> disk \<times> (error + FileSystemDownloadResult option)" where
  "disk_downloadAsync fs url dest hdrs =
     (case map_of server url of
        None \<Rightarrow> (fs, Inl (Error ''network request failed''))
      | Some body \<Rightarrow> (AList.update dest (File body) fs, Inr (Some \<lparr>uri = dest, status = 200\<rparr>)))"

definition disk_deleteAsync :: "disk \<Rightarrow> string \<Rightarrow> bool \<Rightarrow> disk \<times> (error + unit)" where
  "disk_deleteAsync fs path idempotent =
     (case map_of fs path of
        None \<Rightarrow> (fs, if idempotent then Inr () else Inl (Error ''no such file or directory''))
      | Some n \<Rightarrow>
          (filter (\<lambda>(p, n). p \<noteq> path \<and> take (length path + 1) p \<noteq> path @ ''/'') fs, Inr ()))"

definition disk_digestStringAsync :: "CryptoDigestAlgorithm \<Rightarrow> string \<Rightarrow> error + string" where
  "disk_digestStringAsync alg data =
     (if alg = SHA256 then Inr (''sha256-'' @ data) else Inr (''other-'' @ data))"

definition disk_parse :: "string \<Rightarrow> error + ParsedURL" where
  "disk_parse url =
     Inr \<lparr>scheme =
            (if take 7 url = ''http://'' then Some ''http''
             else if take 8 url = ''https://'' then Some ''https''
             else if take 7 url = ''file://'' then Some ''file''
             else None)\<rparr>"

definition disk_expo :: "disk expo" where
  "disk_expo =
     \<lparr>cacheDirectory = ''file:///data/'',
      getInfoAsync = disk_getInfoAsync,
      makeDirectoryAsync = disk_makeDirectoryAsync,
      copyAsync = disk_copyAsync,
      downloadAsync = disk_downloadAsync,
      deleteAsync = disk_deleteAsync,
      digestStringAsync = disk_digestStringAsync,
      parse = disk_parse\<rparr>"

text \<open>
  The state after the hook was mounted on a device that holds one photo: the cache
  directory has been created.
\<close>

definition mounted :: "disk world" where
  "mounted = init disk_expo \<lparr>files = [(''/photos/cat.jpg'', File ''CAT'')], calls = []\<rparr>"

text \<open>
  The state after one more step: the picture \<^verbatim>\<open>https://example.com/a.jpg\<close> has been
  cached as an image, with a token.
\<close>

definition cached :: "disk world" where
  "cached = fst (cacheItem disk_expo ''https://example.com/a.jpg''
     \<lparr>customName = None, fileType = Some image, authToken = Some ''secret''\<rparr> mounted)"

section \<open>Facts used throughout\<close>

lemmas hook_defs = cacheItem_def cacheRemoteItem_def cacheLocalItem_def getCache_def
  FileSystem_getInfoAsync_def FileSystem_downloadAsync_def FileSystem_copyAsync_def
  lock_acquire_def catch_undefined_def

lemmas disk_defs = disk_expo_def disk_getInfoAsync_def disk_makeDirectoryAsync_def
  disk_copyAsync_def disk_downloadAsync_def disk_deleteAsync_def disk_digestStringAsync_def
  disk_parse_def server_def

lemmas run_defs = hook_defs getFilename_def isRemoteUrl_def cacheDirName_def APIHeader_def
  clearCache_def FileSystem_deleteAsync_def storageName_def extension_of_def


text \<open>\<open>getCache\<close> asks the file system one question and changes nothing.\<close>

lemma getCache_files:
  "getCache env name ft s = (s', r) \<Longrightarrow> files s' = files s"
  by (auto simp: getCache_def FileSystem_getInfoAsync_def split: sum.splits if_splits)

lemma getCache_reads_files:
  "files s = files t \<Longrightarrow> snd (getCache env name ft s) = snd (getCache env name ft t)"
  by (auto simp: getCache_def FileSystem_getInfoAsync_def split: sum.splits if_splits)

lemma getCache_hit_calls:
  "getCache env name ft s = (s', Inr v) \<Longrightarrow>
   \<exists>filename. getFilename env name ft = Inr filename \<and>
     s' = s\<lparr>calls := calls s @ [GetInfo (cacheDirectory env @ cacheDirName @ ''/'' @ filename)]\<rparr>"
  by (auto simp: getCache_def FileSystem_getInfoAsync_def split: sum.splits if_splits)

lemma getCache_present:
  assumes "getFilename env name ft = Inr filename"
    and "getInfoAsync env (files s) (cacheDirectory env @ cacheDirName @ ''/'' @ filename) = Inr info"
    and "exists info"
  shows "\<exists>s' entry. getCache env name ft s = (s', Inr (Some entry)) \<and> uri entry = uri info"
  using assms by (simp add: getCache_def FileSystem_getInfoAsync_def)

text \<open>What the remote procedure can add to the list of calls, and when it returns a uri.\<close>

lemma cacheRemoteItem_calls:
  assumes "cacheRemoteItem env url options s = (s', r)"
  shows "calls s' = calls s \<or>
         (\<exists>p. calls s' = calls s @ [GetInfo p]) \<or>
         (\<exists>p dest. calls s' = calls s @ [GetInfo p, Download url dest (APIHeader (authToken options))])"
  using assms
  by (auto simp: hook_defs split: sum.splits if_splits option.splits prod.splits)

lemma cacheRemoteItem_Some:
  assumes "cacheRemoteItem env url options s = (s', Inr (Some u))"
  shows "\<exists>filename r. getFilename env (storageName url options) (fileType options) = Inr filename \<and>
           downloadAsync env (files s) url (cacheDirectory env @ cacheDirName @ ''/'' @ filename)
             (APIHeader (authToken options)) = (files s', Inr (Some r)) \<and> uri r = u"
  using assms
  by (auto simp: hook_defs storageName_def split: sum.splits if_splits option.splits prod.splits)

lemma APIHeader_lookup:
  "map_of (APIHeader token) ''Accept'' = Some ''application/json''"
  "map_of (APIHeader token) ''Content-Type'' = Some ''application/json''"
  "map_of (APIHeader token) ''Authorization'' =
     (case token of None \<Rightarrow> None | Some t \<Rightarrow> if t = [] then None else Some (''Bearer '' @ t))"
  by (simp_all add: APIHeader_def split: option.splits)



text \<open>The small file system: its two states, and the contracts it keeps.\<close>

lemma mounted_eq:
  "mounted =
     \<lparr>files = [(''/photos/cat.jpg'', File ''CAT''), (''file:///data/cache'', Directory)],
      calls = [GetInfo ''file:///data/cache'', MakeDirectory ''file:///data/cache'']\<rparr>"
  by (simp add: mounted_def init_def isCacheDirectoryExists_def createCacheDirectory_def
      FileSystem_getInfoAsync_def FileSystem_makeDirectoryAsync_def cacheDirName_def
      disk_expo_def disk_getInfoAsync_def disk_makeDirectoryAsync_def)

lemma cached_eq:
  "cached =
     \<lparr>files = [(''/photos/cat.jpg'', File ''CAT''), (''file:///data/cache'', Directory),
               (''file:///data/cache/sha256-https://example.com/a.jpg.jpg'', File ''JPEG'')],
      calls = [GetInfo ''file:///data/cache'', MakeDirectory ''file:///data/cache'',
               GetInfo ''file:///data/cache/sha256-https://example.com/a.jpg.jpg'',
               GetInfo ''file:///data/cache/sha256-https://example.com/a.jpg.jpg'',
               Download ''https://example.com/a.jpg''
                 ''file:///data/cache/sha256-https://example.com/a.jpg.jpg''
                 [(''Accept'', ''application/json''), (''Content-Type'', ''application/json''),
                  (''Authorization'', ''Bearer secret'')]]\<rparr>"
  by (simp add: cached_def mounted_eq run_defs disk_defs)

lemma disk_download_materializes: "download_materializes disk_expo"
  by (auto simp: download_materializes_def disk_expo_def disk_downloadAsync_def
      disk_getInfoAsync_def update_conv' split: option.splits)


section \<open>Key derivation\<close>

text \<open>
  Claim C7. For every name and optional file type, the file name derived by
  \<^verbatim>\<open>_getFilename\<close> is the SHA-256 digest string of the name, followed by
  \<^verbatim>\<open>.jpg\<close> for an image, by \<^verbatim>\<open>.mp4\<close> for a video, and by nothing when no
  file type is given. The digest is asked of expo-crypto with the algorithm SHA256 and
  the name itself; when that call rejects, so does the derivation. As the file name is a
  function of the name and the type tag, equal pairs give equal file names.
\<close>

theorem getFilename_digest_extension:
  "getFilename env name ft =
     (case digestStringAsync env SHA256 name of
        Inl e \<Rightarrow> Inl e
      | Inr d \<Rightarrow> Inr (d @ extension_of ft))"
  by (cases ft; simp add: getFilename_def extension_of_def Let_def
        split: sum.splits FileType.splits)

section \<open>The cache hit\<close>

text \<open>
  Claim C6. If \<^verbatim>\<open>getCache(id, t)\<close> returns a present entry, then \<^verbatim>\<open>cacheItem\<close>
  with the file type \<open>t\<close> returns the uri of that entry, and the file system is
  unchanged: the only call made to it is the one lookup of \<^verbatim>\<open>getCache\<close>, so
  there is neither a download nor a copy. This holds whatever the other options are.
\<close>

theorem cacheItem_hit:
  assumes "getCache env url (fileType options) s = (s1, Inr (Some existingCache))"
  shows "cacheItem env url options s = (s1, Inr (Some (uri existingCache))) \<and>
         files s1 = files s \<and> (\<exists>path. calls s1 = calls s @ [GetInfo path])"
proof -
  from getCache_hit_calls [OF assms] have "\<exists>path. calls s1 = calls s @ [GetInfo path]"
    by auto
  moreover have "files s1 = files s"
    using assms by (rule getCache_files)
  moreover have "cacheItem env url options s = (s1, Inr (Some (uri existingCache)))"
    using assms by (simp add: cacheItem_def)
  ultimately show ?thesis by simp
qed

text \<open>The hit on the picture cached before.\<close>

theorem cacheItem_hit_witness:
  "getCache disk_expo ''https://example.com/a.jpg'' (Some image) cached =
     (cached\<lparr>calls := calls cached @
         [GetInfo ''file:///data/cache/sha256-https://example.com/a.jpg.jpg'']\<rparr>,
      Inr (Some \<lparr>uri = ''file:///data/cache/sha256-https://example.com/a.jpg.jpg'',
                 modificationTime = 0, size_bytes = 4\<rparr>)) \<and>
   cacheItem disk_expo ''https://example.com/a.jpg''
       \<lparr>customName = None, fileType = Some image, authToken = None\<rparr> cached =
     (cached\<lparr>calls := calls cached @
         [GetInfo ''file:///data/cache/sha256-https://example.com/a.jpg.jpg'']\<rparr>,
      Inr (Some ''file:///data/cache/sha256-https://example.com/a.jpg.jpg''))"
proof -
  have hit: "getCache disk_expo ''https://example.com/a.jpg''
       (fileType \<lparr>customName = None, fileType = Some image, authToken = None\<rparr>) cached =
     (cached\<lparr>calls := calls cached @
         [GetInfo ''file:///data/cache/sha256-https://example.com/a.jpg.jpg'']\<rparr>,
      Inr (Some \<lparr>uri = ''file:///data/cache/sha256-https://example.com/a.jpg.jpg'',
                 modificationTime = 0, size_bytes = 4\<rparr>))"
    by (simp add: cached_eq run_defs disk_defs)
  from cacheItem_hit [OF hit] hit show ?thesis by simp
qed

section \<open>The remote procedure\<close>

text \<open>
  Claim C5. In \<^verbatim>\<open>_cacheRemoteItem\<close>, once the file name has been derived and the
  lock taken, a lookup \<^verbatim>\<open>getCache(url, fileType)\<close> that finds an entry makes the
  procedure return \<^verbatim>\<open>undefined\<close>, not the uri of the entry, and nothing is
  downloaded: the file system is unchanged and the lookup is the only call made.
\<close>

theorem cacheRemoteItem_recheck_hit:
  assumes "getFilename env (storageName url options) (fileType options) = Inr filename"
    and "getCache env url (fileType options) s = (s1, Inr (Some existingCache))"
  shows "cacheRemoteItem env url options s = (s1, Inr None) \<and>
         files s1 = files s \<and> (\<exists>path. calls s1 = calls s @ [GetInfo path])"
proof -
  from getCache_hit_calls [OF assms(2)] have "\<exists>path. calls s1 = calls s @ [GetInfo path]"
    by auto
  moreover have "files s1 = files s"
    using assms(2) by (rule getCache_files)
  moreover have "cacheRemoteItem env url options s = (s1, Inr None)"
    using assms
    by (simp add: cacheRemoteItem_def storageName_def lock_acquire_def catch_undefined_def)
  ultimately show ?thesis by simp
qed

text \<open>The picture is there already; the procedure is asked for it under another name.\<close>

theorem cacheRemoteItem_recheck_hit_witness:
  "getFilename disk_expo ''avatar'' (Some image) = Inr ''sha256-avatar.jpg'' \<and>
   getCache disk_expo ''https://example.com/a.jpg'' (Some image) cached =
     (cached\<lparr>calls := calls cached @
         [GetInfo ''file:///data/cache/sha256-https://example.com/a.jpg.jpg'']\<rparr>,
      Inr (Some \<lparr>uri = ''file:///data/cache/sha256-https://example.com/a.jpg.jpg'',
                 modificationTime = 0, size_bytes = 4\<rparr>)) \<and>
   cacheRemoteItem disk_expo ''https://example.com/a.jpg''
       \<lparr>customName = Some ''avatar'', fileType = Some image, authToken = None\<rparr> cached =
     (cached\<lparr>calls := calls cached @
         [GetInfo ''file:///data/cache/sha256-https://example.com/a.jpg.jpg'']\<rparr>,
      Inr None)"
proof -
  let ?options = "\<lparr>customName = Some ''avatar'', fileType = Some image, authToken = None\<rparr>"
  have name: "getFilename disk_expo (storageName ''https://example.com/a.jpg'' ?options)
       (fileType ?options) = Inr ''sha256-avatar.jpg''"
    by (simp add: run_defs disk_defs)
  have hit: "getCache disk_expo ''https://example.com/a.jpg'' (fileType ?options) cached =
     (cached\<lparr>calls := calls cached @
         [GetInfo ''file:///data/cache/sha256-https://example.com/a.jpg.jpg'']\<rparr>,
      Inr (Some \<lparr>uri = ''file:///data/cache/sha256-https://example.com/a.jpg.jpg'',
                 modificationTime = 0, size_bytes = 4\<rparr>))"
    by (simp add: cached_eq run_defs disk_defs)
  from cacheRemoteItem_recheck_hit [OF name hit] name hit show ?thesis
    by (simp add: storageName_def)
qed

text \<open>
  Claim C10, as stated, says that the request carries \<^verbatim>\<open>Authorization\<close> exactly when
  \<^verbatim>\<open>authToken\<close> is given. \<^verbatim>\<open>APIHeader\<close> tests \<^verbatim>\<open>if (token)\<close>, and the empty
  string is false there: with \<^verbatim>\<open>authToken: ""\<close> the download goes out with
  \<^verbatim>\<open>Accept\<close> and \<^verbatim>\<open>Content-Type\<close> only.
\<close>

theorem APIHeader_empty_token_counterexample:
  "calls (fst (cacheItem disk_expo ''https://example.com/a.jpg''
       \<lparr>customName = None, fileType = Some image, authToken = Some []\<rparr> mounted)) =
     calls mounted @
       [GetInfo ''file:///data/cache/sha256-https://example.com/a.jpg.jpg'',
        GetInfo ''file:///data/cache/sha256-https://example.com/a.jpg.jpg'',
        Download ''https://example.com/a.jpg''
          ''file:///data/cache/sha256-https://example.com/a.jpg.jpg''
          [(''Accept'', ''application/json''), (''Content-Type'', ''application/json'')]]"
  by (simp add: mounted_eq run_defs disk_defs)

text \<open>
  Claim C10, amended. Every download that \<^verbatim>\<open>_cacheRemoteItem\<close> starts carries
  \<^verbatim>\<open>Accept: application/json\<close> and \<^verbatim>\<open>Content-Type: application/json\<close>, whatever
  the options are, and carries \<^verbatim>\<open>Authorization: Bearer <token>\<close> exactly when
  \<^verbatim>\<open>authToken\<close> is given and is not the empty string. The downloads the call starts
  are those it adds to the list of calls.
\<close>

theorem cacheRemoteItem_download_headers:
  assumes "cacheRemoteItem env url options s = (s', r)"
    and "Download u dest hdrs \<in> set (drop (length (calls s)) (calls s'))"
  shows "map_of hdrs ''Accept'' = Some ''application/json'' \<and>
         map_of hdrs ''Content-Type'' = Some ''application/json'' \<and>
         map_of hdrs ''Authorization'' =
           (case authToken options of
              None \<Rightarrow> None
            | Some t \<Rightarrow> if t = [] then None else Some (''Bearer '' @ t))"
proof -
  from cacheRemoteItem_calls [OF assms(1)] assms(2)
  have "hdrs = APIHeader (authToken options)" by auto
  then show ?thesis by (simp add: APIHeader_lookup)
qed

text \<open>A download with the token \<^verbatim>\<open>secret\<close>.\<close>

theorem cacheRemoteItem_download_headers_witness:
  "Download ''https://example.com/a.jpg''
      ''file:///data/cache/sha256-https://example.com/a.jpg.jpg''
      [(''Accept'', ''application/json''), (''Content-Type'', ''application/json''),
       (''Authorization'', ''Bearer secret'')]
     \<in> set (drop (length (calls mounted))
         (calls (fst (cacheRemoteItem disk_expo ''https://example.com/a.jpg''
            \<lparr>customName = None, fileType = Some image, authToken = Some ''secret''\<rparr>
            mounted)))) \<and>
   map_of [(''Accept'', ''application/json''), (''Content-Type'', ''application/json''),
           (''Authorization'', ''Bearer secret'')] ''Authorization'' = Some ''Bearer secret''"
proof -
  let ?options = "\<lparr>customName = None, fileType = Some image, authToken = Some ''secret''\<rparr>"
  let ?run = "cacheRemoteItem disk_expo ''https://example.com/a.jpg'' ?options mounted"
  have run: "?run = (fst ?run, snd ?run)"
    by simp
  have sent: "Download ''https://example.com/a.jpg''
      ''file:///data/cache/sha256-https://example.com/a.jpg.jpg''
      [(''Accept'', ''application/json''), (''Content-Type'', ''application/json''),
       (''Authorization'', ''Bearer secret'')]
     \<in> set (drop (length (calls mounted)) (calls (fst ?run)))"
    by (simp add: mounted_eq run_defs disk_defs)
  from cacheRemoteItem_download_headers [OF run sent] sent show ?thesis
    by simp
qed

section \<open>A custom name\<close>




section \<open>The round trip\<close>

text \<open>
  Claim C1, as stated, says that after \<^verbatim>\<open>cacheItem(id, opts)\<close> has returned a uri,
  \<^verbatim>\<open>getCache(id, opts.fileType)\<close> finds an entry with that uri. With
  \<^verbatim>\<open>customName\<close> set the file is stored under the digest of the custom name, and the
  doc comment of \<^verbatim>\<open>getCache\<close> asks for the url or the custom name: the lookup by
  the url finds nothing.
\<close>

theorem cacheItem_round_trip_counterexample:
  "snd (cacheItem disk_expo ''https://example.com/a.jpg''
          \<lparr>customName = Some ''avatar'', fileType = Some image, authToken = None\<rparr> mounted)
     = Inr (Some ''file:///data/cache/sha256-avatar.jpg'') \<and>
   snd (getCache disk_expo ''https://example.com/a.jpg'' (Some image)
          (fst (cacheItem disk_expo ''https://example.com/a.jpg''
             \<lparr>customName = Some ''avatar'', fileType = Some image, authToken = None\<rparr> mounted)))
     = Inr None"
  by (simp add: mounted_eq run_defs disk_defs)

text \<open>
  Claim C1, amended. Let the identifier be remote, or cached already. If
  \<^verbatim>\<open>cacheItem(id, opts)\<close> returns a uri \<open>u\<close>, then in the state it leaves
  \<^verbatim>\<open>getCache(name, opts.fileType)\<close> returns an entry whose uri is \<open>u\<close>, where
  the name is \<open>id\<close> when the entry was there at the start of the call, and
  \<^verbatim>\<open>opts.customName ?? id\<close> when it was downloaded; so the name is \<open>id\<close> whenever
  no custom name is given. A download that reports a result is assumed to have left the
  file at its destination. Nothing is said here about the copy of a local file.
\<close>

theorem cacheItem_round_trip:
  assumes mat: "download_materializes env"
    and run: "cacheItem env url options s = (s', Inr (Some u))"
    and remote: "snd (getCache env url (fileType options) s) = Inr None \<longrightarrow>
                 isRemoteUrl env url = Inr True"
  shows "\<exists>s'' entry.
           getCache env
             (case snd (getCache env url (fileType options) s) of
                Inr None \<Rightarrow> storageName url options
              | _ \<Rightarrow> url)
             (fileType options) s' = (s'', Inr (Some entry)) \<and>
           uri entry = u"
proof -
  obtain s1 r1 where first: "getCache env url (fileType options) s = (s1, r1)"
    by (cases "getCache env url (fileType options) s")
  show ?thesis
  proof (cases r1)
    case (Inl e)
    with first run show ?thesis by (simp add: cacheItem_def)
  next
    case (Inr found)
    show ?thesis
    proof (cases found)
      case (Some existingCache)
      with Inr first run have s': "s' = s1" and u: "u = uri existingCache"
        by (simp_all add: cacheItem_def)
      have "files s1 = files s" using first by (rule getCache_files)
      then have "snd (getCache env url (fileType options) s1) = Inr (Some existingCache)"
        using getCache_reads_files [of s1 s env url "fileType options"] first Inr Some by simp
      then show ?thesis
        using first Inr Some s' u
        by (cases "getCache env url (fileType options) s1") auto
    next
      case None
      with Inr first remote have rem: "isRemoteUrl env url = Inr True" by simp
      with None Inr first run have "cacheRemoteItem env url options s1 = (s', Inr (Some u))"
        by (simp add: cacheItem_def)
      from cacheRemoteItem_Some [OF this] obtain filename r where
        fn: "getFilename env (storageName url options) (fileType options) = Inr filename" and
        dl: "downloadAsync env (files s1) url (cacheDirectory env @ cacheDirName @ ''/'' @ filename)
               (APIHeader (authToken options)) = (files s', Inr (Some r))" and
        u: "uri r = u"
        by blast
      from mat dl obtain info where
        "getInfoAsync env (files s') (cacheDirectory env @ cacheDirName @ ''/'' @ filename) = Inr info"
        "exists info" "uri info = uri r"
        unfolding download_materializes_def by blast
      from getCache_present [OF fn this(1,2)] this(3) u first Inr None
      show ?thesis by auto
    qed
  qed
qed

text \<open>The picture downloaded under the name \<^verbatim>\<open>avatar\<close> is found under that name.\<close>

theorem cacheItem_round_trip_witness:
  "download_materializes disk_expo \<and>
   snd (cacheItem disk_expo ''https://example.com/a.jpg''
          \<lparr>customName = Some ''avatar'', fileType = Some image, authToken = None\<rparr> mounted)
     = Inr (Some ''file:///data/cache/sha256-avatar.jpg'') \<and>
   (\<exists>s'' entry.
      getCache disk_expo ''avatar'' (Some image)
        (fst (cacheItem disk_expo ''https://example.com/a.jpg''
           \<lparr>customName = Some ''avatar'', fileType = Some image, authToken = None\<rparr> mounted))
        = (s'', Inr (Some entry)) \<and>
      uri entry = ''file:///data/cache/sha256-avatar.jpg'')"
proof -
  let ?options = "\<lparr>customName = Some ''avatar'', fileType = Some image, authToken = None\<rparr>"
  let ?run = "cacheItem disk_expo ''https://example.com/a.jpg'' ?options mounted"
  have res: "snd ?run = Inr (Some ''file:///data/cache/sha256-avatar.jpg'')"
    by (simp add: mounted_eq run_defs disk_defs)
  then have run: "?run = (fst ?run, Inr (Some ''file:///data/cache/sha256-avatar.jpg''))"
    by (simp add: prod_eq_iff)
  have miss: "snd (getCache disk_expo ''https://example.com/a.jpg'' (fileType ?options) mounted)
      = Inr None"
    by (simp add: mounted_eq run_defs disk_defs)
  have remote: "isRemoteUrl disk_expo ''https://example.com/a.jpg'' = Inr True"
    by (simp add: run_defs disk_defs)
  from cacheItem_round_trip [OF disk_download_materializes run] miss remote res
    disk_download_materializes
  show ?thesis by (simp add: storageName_def)
qed

section \<open>The local procedure\<close>

text \<open>
  Claim C4 says that \<^verbatim>\<open>cacheItem\<close> on a local file copies it to the derived path,
  asks for the entry at that path and returns its uri. \<^verbatim>\<open>_cacheLocalItem\<close> passes
  the destination path to \<^verbatim>\<open>getCache\<close>, which takes a name and hashes it again: the
  question goes to the file named after the digest of the destination path. Here the
  photo on the device is copied, the copy is there, and the call returns
  \<^verbatim>\<open>undefined\<close>.
\<close>

theorem cacheItem_local_copy_returns_absent:
  "cacheItem disk_expo ''/photos/cat.jpg''
      \<lparr>customName = None, fileType = Some image, authToken = None\<rparr> mounted =
     (\<lparr>files = [(''/photos/cat.jpg'', File ''CAT''), (''file:///data/cache'', Directory),
                (''file:///data/cache/sha256-/photos/cat.jpg.jpg'', File ''CAT'')],
       calls = calls mounted @
         [GetInfo ''file:///data/cache/sha256-/photos/cat.jpg.jpg'',
          Copy ''/photos/cat.jpg'' ''file:///data/cache/sha256-/photos/cat.jpg.jpg'',
          GetInfo ''file:///data/cache/sha256-file:///data/cache/sha256-/photos/cat.jpg.jpg.jpg'']\<rparr>,
      Inr None)"
  by (simp add: mounted_eq run_defs disk_defs)

text \<open>
  Claim C2 says that \<^verbatim>\<open>cacheItem\<close> never raises. The try block of
  \<^verbatim>\<open>cacheItem\<close> returns the promise of \<^verbatim>\<open>_cacheLocalItem\<close> without awaiting
  it, and \<^verbatim>\<open>_cacheLocalItem\<close> catches nothing: when the source of the copy is
  missing, the rejection of \<^verbatim>\<open>copyAsync\<close> is the rejection of \<^verbatim>\<open>cacheItem\<close>.
\<close>

theorem cacheItem_local_copy_failure_raises:
  "snd (cacheItem disk_expo ''/photos/missing.jpg''
          \<lparr>customName = None, fileType = Some image, authToken = None\<rparr> mounted)
     = Inl (Error ''source is not readable'')"
  by (simp add: mounted_eq run_defs disk_defs)

section \<open>Clearing the cache\<close>

text \<open>
  Claim C8, as stated, says that \<^verbatim>\<open>clearCache\<close> does not raise when the cache
  directory is absent. \<^verbatim>\<open>clearCache\<close> calls \<^verbatim>\<open>deleteAsync\<close> without the
  option \<^verbatim>\<open>idempotent\<close> and without a catch clause. After one \<^verbatim>\<open>clearCache\<close>
  the directory is gone, and the second one raises.
\<close>

theorem clearCache_counterexample:
  "getInfoAsync disk_expo (files (fst (clearCache disk_expo mounted))) ''file:///data/cache'' =
     Inr \<lparr>uri = ''file:///data/cache'', modificationTime = 0, size_bytes = 0,
          exists = False, isDirectory = False\<rparr> \<and>
   snd (clearCache disk_expo (fst (clearCache disk_expo mounted))) =
     Inl (Error ''no such file or directory'')"
  by (simp add: mounted_eq run_defs disk_defs)

text \<open>
  Claim C8, amended. \<^verbatim>\<open>clearCache\<close> makes one call, \<^verbatim>\<open>deleteAsync\<close> on the
  cache directory with \<^verbatim>\<open>idempotent\<close> false, and settles as that call does: it
  completes without raising exactly when the deletion does, and every error of the
  deletion reaches the caller.
\<close>

theorem clearCache_propagates:
  "clearCache env s =
     (\<lparr>files = fst (deleteAsync env (files s) (cacheDirectory env @ ''cache'') False),
       calls = calls s @ [Delete (cacheDirectory env @ ''cache'') False]\<rparr>,
      snd (deleteAsync env (files s) (cacheDirectory env @ ''cache'') False))"
  by (simp add: clearCache_def FileSystem_deleteAsync_def cacheDirName_def split: prod.splits)

end
